theory Spec2Isabelle
  imports Complex_Main "HOL-Library.Sublist"
begin

section \<open>JavaScript values used by the two components\<close>

text \<open>
  Amounts are JavaScript numbers that arrive as JSON or from a form field. They are
  modelled as exact rationals; an optional field (\<^verbatim>\<open>owed_share?: number\<close>) is an
  \<open>option\<close>, with \<open>None\<close> for \<^verbatim>\<open>undefined\<close>. Rounding of binary floating point is
  not modelled; the sums below are taken from left to right, as \<^verbatim>\<open>reduce\<close> takes them.

  The operator \<^verbatim>\<open>a || b\<close> yields \<open>a\<close> when \<open>a\<close> is truthy and \<open>b\<close> otherwise. A number is
  falsy when it is \<^verbatim>\<open>undefined\<close>, \<^verbatim>\<open>NaN\<close> or \<open>0\<close>; a string is falsy when it is
  \<^verbatim>\<open>undefined\<close> or empty. \<^verbatim>\<open>NaN\<close> only arises from \<^verbatim>\<open>parseFloat\<close> and is written
  \<open>None\<close> there.
\<close>

definition num_or :: "rat option \<Rightarrow> rat \<Rightarrow> rat" where
  "num_or a b = (case a of None \<Rightarrow> b | Some v \<Rightarrow> if v \<noteq> 0 then v else b)"

definition str_or :: "string option \<Rightarrow> string \<Rightarrow> string" where
  "str_or a b = (case a of None \<Rightarrow> b | Some s \<Rightarrow> if s \<noteq> [] then s else b)"

section \<open>Dashboard.tsx: the summary figures\<close>

record Expense =
  e_id :: string
  e_description :: string
  e_amount :: rat
  e_currency :: string
  e_date :: string
  e_category :: "string option"
  e_expense_type :: "string option"
  e_expense_title :: "string option"
  e_net_balance :: "rat option"
  e_total_expense :: "rat option"
  e_owed_share :: "rat option"
  e_group_id :: "string option"
  e_group_name :: "string option"

record Income =
  i_id :: string
  i_description :: string
  i_amount :: rat
  i_currency :: string
  i_date :: string
  i_category :: "string option"
  i_source :: "string option"

text \<open>
  \<^verbatim>\<open>const totalIncome = income.reduce((sum, i) => sum + (i.amount || 0), 0)\<close>
  \<^verbatim>\<open>const youOwe = expenses.reduce((sum, e) => sum + (e.owed_share || 0), 0)\<close>
  \<^verbatim>\<open>const netBalance = totalIncome - youOwe\<close>
\<close>

definition totalIncome :: "Income list \<Rightarrow> rat" where
  "totalIncome income = foldl (\<lambda>sum i. sum + num_or (Some (i_amount i)) 0) 0 income"

definition youOwe :: "Expense list \<Rightarrow> rat" where
  "youOwe expenses = foldl (\<lambda>sum e. sum + num_or (e_owed_share e) 0) 0 expenses"

definition netBalance :: "Expense list \<Rightarrow> Income list \<Rightarrow> rat" where
  "netBalance expenses income = totalIncome income - youOwe expenses"

section \<open>ImportPage.tsx: the import review page\<close>

subsection \<open>Data\<close>

text \<open>
  \<^verbatim>\<open>interface ImportedExpense\<close>, a candidate of the import. The last three fields are
  not declared by the interface: the component reads \<^verbatim>\<open>group_id\<close> and \<^verbatim>\<open>paid_share\<close>
  through \<^verbatim>\<open>(editingExpense as any)\<close>, and \<^verbatim>\<open>already_imported\<close> on the records of the
  import response (\<^verbatim>\<open>(e: any) => !e.already_imported\<close>), where the import endpoint labels
  every record.
\<close>

record ImportedExpense =
  c_id :: string
  c_description :: string
  c_amount :: rat
  c_currency :: string
  c_date :: string
  c_category :: "string option"
  c_expense_type :: "string option"
  c_net_balance :: "rat option"
  c_total_expense :: "rat option"
  c_owed_share :: "rat option"
  c_splitwise_id :: "string option"
  c_group_id :: "string option"
  c_paid_share :: "rat option"
  c_already_imported :: bool

record Group =
  g_id :: string
  g_name :: string
  g_description :: "string option"
  g_color :: "string option"

text \<open>The body of \<^verbatim>\<open>POST /expenses\<close> built by \<^verbatim>\<open>handleSaveExpense\<close>.\<close>

record expenseData =
  d_description :: string
  d_amount :: rat
  d_currency :: string
  d_date :: string
  d_category :: string
  d_group_id :: string
  d_group_name :: string
  d_expense_type :: string
  d_owed_share :: rat
  d_paid_share :: rat
  d_splitwise_id :: string

text \<open>
  The state of the component (its \<^verbatim>\<open>useState\<close> cells), the prop \<^verbatim>\<open>onExpenseAdded\<close>
  (\<open>True\<close> when the parent passes the callback, as \<^verbatim>\<open>Dashboard\<close> does with
  \<^verbatim>\<open>() => fetchExpenses(expensesPage)\<close>), and the two things outside the component that
  its handlers act on: \<open>store\<close>, the bodies that \<^verbatim>\<open>POST /expenses\<close> has accepted, oldest
  first, and \<open>refreshes\<close>, the number of calls of \<^verbatim>\<open>onExpenseAdded\<close> made so far.
\<close>

record page =
  importedExpenses :: "ImportedExpense list"
  filteredExpenses :: "ImportedExpense list"
  selectedExpenses :: "string set"
  loading :: bool
  message :: string
  error :: string
  showImportForm :: bool
  startDate :: string
  endDate :: string
  selectedMonth :: string
  filterCategory :: string
  filterType :: string
  filterDateFrom :: string
  filterDateTo :: string
  searchQuery :: string
  showEditModal :: bool
  expensesToConfirm :: "ImportedExpense list"
  editingExpenseIndex :: nat
  groups :: "Group list"
  editingExpense :: "ImportedExpense option"
  onExpenseAdded :: bool
  store :: "expenseData list"
  refreshes :: nat

text \<open>The component as first rendered: every \<^verbatim>\<open>useState\<close> cell at its initial value.\<close>

definition initial_page :: "bool \<Rightarrow> expenseData list \<Rightarrow> page" where
  "initial_page cb db =
     \<lparr>importedExpenses = [], filteredExpenses = [], selectedExpenses = {},
      loading = False, message = [], error = [], showImportForm = False,
      startDate = [], endDate = [], selectedMonth = [],
      filterCategory = [], filterType = [], filterDateFrom = [], filterDateTo = [],
      searchQuery = [], showEditModal = False, expensesToConfirm = [],
      editingExpenseIndex = 0, groups = [], editingExpense = None,
      onExpenseAdded = cb, store = db, refreshes = 0\<rparr>"

subsection \<open>Rendering a count in a message\<close>

function show_nat :: "nat \<Rightarrow> string" where
  "show_nat n =
     (if n < 10 then [''0123456789'' ! n]
      else show_nat (n div 10) @ [''0123456789'' ! (n mod 10)])"
  by pat_completeness auto
termination
  by (relation "measure (\<lambda>n. n)") auto

declare show_nat.simps [simp del]

subsection \<open>Fetching and filtering the candidates\<close>

text \<open>
  \<^verbatim>\<open>applyFilters\<close> runs in an effect after every render in which the imported list or a
  filter changed, so the list on screen, \<^verbatim>\<open>filteredExpenses\<close>, is its result on the
  current state. Two library functions are parameters: \<open>toLowerCase\<close> is
  \<^verbatim>\<open>String.prototype.toLowerCase\<close>, and \<open>date_value\<close> is the time value of
  \<^verbatim>\<open>new Date(s)\<close>, \<open>None\<close> for an invalid date (its comparisons are all false).
\<close>

definition date_ge :: "int option \<Rightarrow> int option \<Rightarrow> bool" where
  "date_ge a b = (case (a, b) of (Some x, Some y) \<Rightarrow> x \<ge> y | _ \<Rightarrow> False)"

definition date_le :: "int option \<Rightarrow> int option \<Rightarrow> bool" where
  "date_le a b = (case (a, b) of (Some x, Some y) \<Rightarrow> x \<le> y | _ \<Rightarrow> False)"

definition applyFilters :: "(string \<Rightarrow> string) \<Rightarrow> (string \<Rightarrow> int option) \<Rightarrow> page \<Rightarrow> page" where
  "applyFilters toLowerCase date_value st =
     (let filtered0 = importedExpenses st;
          filtered1 = (if searchQuery st \<noteq> []
             then filter (\<lambda>e. sublist (toLowerCase (searchQuery st)) (toLowerCase (c_description e)))
                    filtered0
             else filtered0);
          filtered2 = (if filterCategory st \<noteq> []
             then filter (\<lambda>e. c_category e = Some (filterCategory st)) filtered1
             else filtered1);
          filtered3 = (if filterType st \<noteq> []
             then filter (\<lambda>e. c_expense_type e = Some (filterType st)) filtered2
             else filtered2);
          filtered4 = (if filterDateFrom st \<noteq> []
             then filter (\<lambda>e. date_ge (date_value (c_date e)) (date_value (filterDateFrom st)))
                    filtered3
             else filtered3);
          filtered5 = (if filterDateTo st \<noteq> []
             then filter (\<lambda>e. date_le (date_value (c_date e)) (date_value (filterDateTo st)))
                    filtered4
             else filtered4)
      in st\<lparr>filteredExpenses := filtered5\<rparr>)"

text \<open>
  What \<^verbatim>\<open>POST /splitwise/import\<close> answered: a rejection with the optional
  \<^verbatim>\<open>err.response.data.detail\<close>, or a body with the optional fields \<^verbatim>\<open>expenses\<close> and
  \<^verbatim>\<open>message\<close>.
\<close>

datatype import_response =
  ImportFailed "string option"
| ImportOk "ImportedExpense list option" "string option"

definition handleImportExpenses :: "page \<Rightarrow> import_response \<Rightarrow> page" where
  "handleImportExpenses st response =
     (case response of
        ImportOk (Some expenses) msg \<Rightarrow>
          (let newExpenses = filter (\<lambda>e. \<not> c_already_imported e) expenses
           in st\<lparr>error := [],
                 importedExpenses := newExpenses,
                 message := str_or msg
                   (''Found '' @ show_nat (length newExpenses) @ '' new expenses to import. ''
                    @ show_nat (length expenses - length newExpenses) @ '' already imported.''),
                 showImportForm := False, startDate := [], endDate := [], selectedMonth := [],
                 loading := False\<rparr>)
      | ImportOk None msg \<Rightarrow>
          st\<lparr>error := [],
             message := str_or msg ''No expenses found.'',
             importedExpenses := [],
             showImportForm := False, startDate := [], endDate := [], selectedMonth := [],
             loading := False\<rparr>
      | ImportFailed detail \<Rightarrow>
          st\<lparr>message := [],
             error := str_or detail ''Failed to import expenses'',
             loading := False\<rparr>)"

subsection \<open>Starting a review\<close>

text \<open>
  \<^verbatim>\<open>expensesToAdd[0]\<close> is \<^verbatim>\<open>undefined\<close> when no selected id is on screen any more; the
  modal is rendered only under \<^verbatim>\<open>showEditModal && editingExpense\<close>, so \<open>None\<close> stands
  for both \<^verbatim>\<open>null\<close> and \<^verbatim>\<open>undefined\<close>.
\<close>

definition handleAddToExpenses :: "page \<Rightarrow> page" where
  "handleAddToExpenses st =
     (if selectedExpenses st = {}
      then st\<lparr>error := ''Please select at least one expense to add''\<rparr>
      else
        (let expensesToAdd = filter (\<lambda>e. c_id e \<in> selectedExpenses st) (filteredExpenses st)
         in st\<lparr>expensesToConfirm := expensesToAdd,
               editingExpense := (case expensesToAdd of [] \<Rightarrow> None | e # _ \<Rightarrow> Some e),
               editingExpenseIndex := 0,
               showEditModal := True\<rparr>))"

subsection \<open>Editing the current candidate\<close>

text \<open>
  The six inputs of the modal. Each handler is
  \<^verbatim>\<open>setEditingExpense({ ...editingExpense, field: value })\<close>. The amount input stores
  \<^verbatim>\<open>parseFloat(e.target.value) || 0\<close> in \<^verbatim>\<open>owed_share\<close>; \<open>SetAmount\<close> carries the result of
  \<^verbatim>\<open>parseFloat\<close>, \<open>None\<close> for \<^verbatim>\<open>NaN\<close>.
\<close>

datatype edit =
  SetDescription string
| SetAmount "rat option"
| SetCurrency string
| SetDate string
| SetCategory string
| SetGroup string

fun apply_edit :: "edit \<Rightarrow> ImportedExpense \<Rightarrow> ImportedExpense" where
  "apply_edit (SetDescription v) e = e\<lparr>c_description := v\<rparr>"
| "apply_edit (SetAmount v) e = e\<lparr>c_owed_share := Some (num_or v 0)\<rparr>"
| "apply_edit (SetCurrency v) e = e\<lparr>c_currency := v\<rparr>"
| "apply_edit (SetDate v) e = e\<lparr>c_date := v\<rparr>"
| "apply_edit (SetCategory v) e = e\<lparr>c_category := Some v\<rparr>"
| "apply_edit (SetGroup v) e = e\<lparr>c_group_id := Some v\<rparr>"

definition handleEdit :: "page \<Rightarrow> edit \<Rightarrow> page" where
  "handleEdit st ed =
     (case editingExpense st of
        Some e \<Rightarrow> if showEditModal st then st\<lparr>editingExpense := Some (apply_edit ed e)\<rparr> else st
      | None \<Rightarrow> st)"

subsection \<open>Saving and skipping\<close>

text \<open>The object \<^verbatim>\<open>expenseData\<close> of \<^verbatim>\<open>handleSaveExpense\<close>, field by field.\<close>

definition expenseData_of :: "Group list \<Rightarrow> ImportedExpense \<Rightarrow> expenseData" where
  "expenseData_of gs e =
     \<lparr>d_description = c_description e,
      d_amount = num_or (Some (num_or (c_owed_share e) (c_amount e))) 0,
      d_currency = c_currency e,
      d_date = c_date e,
      d_category = str_or (c_category e) [],
      d_group_id = str_or (c_group_id e) [],
      d_group_name = str_or (map_option g_name (find (\<lambda>g. Some (g_id g) = c_group_id e) gs)) [],
      d_expense_type = str_or (c_expense_type e) ''borrowed'',
      d_owed_share = num_or (Some (num_or (c_owed_share e) (c_amount e))) 0,
      d_paid_share = num_or (c_paid_share e) 0,
      d_splitwise_id = str_or (c_splitwise_id e) (c_id e)\<rparr>"

text \<open>
  What \<^verbatim>\<open>POST /expenses\<close> answered: accepted, or rejected with the optional
  \<^verbatim>\<open>err.response.data.detail\<close>. An accepted body is appended to \<open>store\<close>. The timer
  that empties the success message three seconds after the last save is a later event
  and not part of the handler's result.
\<close>

datatype post_result = PostOk | PostFailed "string option"

definition handleSaveExpense :: "page \<Rightarrow> post_result \<Rightarrow> page" where
  "handleSaveExpense st r =
     (case editingExpense st of
        None \<Rightarrow> st
      | Some e \<Rightarrow>
          (case r of
             PostFailed detail \<Rightarrow> st\<lparr>error := str_or detail ''Failed to save expense''\<rparr>
           | PostOk \<Rightarrow>
               (let saved = st\<lparr>store := store st @ [expenseData_of (groups st) e]\<rparr>;
                    nextIndex = editingExpenseIndex st + 1
                in if nextIndex < length (expensesToConfirm st)
                   then saved\<lparr>editingExpenseIndex := nextIndex,
                              editingExpense := Some (expensesToConfirm st ! nextIndex)\<rparr>
                   else saved\<lparr>showEditModal := False,
                              message := ''Successfully added ''
                                @ show_nat (length (expensesToConfirm st))
                                @ '' expense(s) to your expenses!'',
                              importedExpenses :=
                                filter (\<lambda>e. c_id e \<notin> selectedExpenses st) (importedExpenses st),
                              selectedExpenses := {},
                              expensesToConfirm := [],
                              editingExpense := None,
                              editingExpenseIndex := 0,
                              refreshes := (if onExpenseAdded st then refreshes st + 1
                                            else refreshes st)\<rparr>)))"

definition handleSkipExpense :: "page \<Rightarrow> page" where
  "handleSkipExpense st =
     (let nextIndex = editingExpenseIndex st + 1
      in if nextIndex < length (expensesToConfirm st)
         then st\<lparr>editingExpenseIndex := nextIndex,
                 editingExpense := Some (expensesToConfirm st ! nextIndex)\<rparr>
         else st\<lparr>showEditModal := False,
                 importedExpenses :=
                   filter (\<lambda>e. c_id e \<notin> selectedExpenses st) (importedExpenses st),
                 selectedExpenses := {},
                 expensesToConfirm := [],
                 editingExpense := None,
                 editingExpenseIndex := 0\<rparr>)"

subsection \<open>A review session\<close>

text \<open>
  The user's actions on the open modal, one handler call each. \<open>Save\<close> carries the answer
  of the server to that call.
\<close>

datatype action = Edit edit | Save post_result | Skip

fun step :: "page \<Rightarrow> action \<Rightarrow> page" where
  "step st (Edit ed) = handleEdit st ed"
| "step st (Save r) = handleSaveExpense st r"
| "step st Skip = handleSkipExpense st"

definition run :: "page \<Rightarrow> action list \<Rightarrow> page" where
  "run st as = foldl step st as"

text \<open>
  The states of the review. At \<open>reviewing st i n\<close> the modal shows candidate \<open>i\<close> of \<open>n\<close>
  (the header reads \<^verbatim>\<open>Confirm Expense (i + 1 of n)\<close>). \<open>complete\<close> is the state both
  handlers leave after the last candidate: modal closed, every cell of the session reset.
\<close>

definition reviewing :: "page \<Rightarrow> nat \<Rightarrow> nat \<Rightarrow> bool" where
  "reviewing st i n \<longleftrightarrow>
     showEditModal st \<and> editingExpense st \<noteq> None \<and> editingExpenseIndex st = i
     \<and> length (expensesToConfirm st) = n \<and> i < n"

definition complete :: "page \<Rightarrow> bool" where
  "complete st \<longleftrightarrow>
     \<not> showEditModal st \<and> editingExpense st = None \<and> editingExpenseIndex st = 0
     \<and> expensesToConfirm st = [] \<and> selectedExpenses st = {}"

section \<open>The aggregate as the specification words it\<close>




section \<open>Sample data\<close>


definition sample_candidate :: "string \<Rightarrow> rat \<Rightarrow> rat option \<Rightarrow> bool \<Rightarrow> ImportedExpense" where
  "sample_candidate i a s imported =
     \<lparr>c_id = i, c_description = ''Dinner'', c_amount = a, c_currency = ''USD'',
      c_date = ''2024-01-05'', c_category = None, c_expense_type = Some ''borrowed'',
      c_net_balance = None, c_total_expense = None, c_owed_share = s,
      c_splitwise_id = Some i, c_group_id = None, c_paid_share = None,
      c_already_imported = imported\<rparr>"

text \<open>
  A fetch that returns \<open>sw-1\<close> (already imported), \<open>sw-2\<close> and \<open>sw-3\<close>; the page after the
  effect has filtered the list (no filter set), and after the user has ticked both
  candidates on screen and pressed \<^verbatim>\<open>Add Selected\<close>.
\<close>

definition sample_fetched :: page where
  "sample_fetched =
     applyFilters (\<lambda>s. s) (\<lambda>s. None)
       (handleImportExpenses (initial_page True [])
          (ImportOk (Some [sample_candidate ''sw-1'' 7 (Some 7) True,
                           sample_candidate ''sw-2'' 42 (Some 42) False,
                           sample_candidate ''sw-3'' 10 (Some 10) False]) None))"

definition sample_review :: page where
  "sample_review = handleAddToExpenses (sample_fetched\<lparr>selectedExpenses := {''sw-2'', ''sw-3''}\<rparr>)"

section \<open>Facts about the model\<close>



lemma apply_edit_ids:
  "c_id (apply_edit ed c) = c_id c \<and> c_splitwise_id (apply_edit ed c) = c_splitwise_id c"
  by (cases ed) simp_all

lemma fold_apply_edit_ids:
  "c_id (fold apply_edit eds c) = c_id c
   \<and> c_splitwise_id (fold apply_edit eds c) = c_splitwise_id c"
  by (induction eds arbitrary: c) (simp_all add: apply_edit_ids)

lemma handleEdit_reviewing:
  "showEditModal st \<Longrightarrow> editingExpense st = Some c \<Longrightarrow>
   handleEdit st ed = st\<lparr>editingExpense := Some (apply_edit ed c)\<rparr>"
  by (simp add: handleEdit_def)

lemma run_Nil: "run st [] = st"
  by (simp add: run_def)

lemma run_Cons: "run st (a # as) = run (step st a) as"
  by (simp add: run_def)

lemma run_append: "run st (as @ bs) = run (run st as) bs"
  by (simp add: run_def)

text \<open>Edits change the candidate in the modal and nothing else.\<close>

lemma run_edits:
  "showEditModal st \<Longrightarrow> editingExpense st = Some c \<Longrightarrow>
   run st (map Edit eds) = st\<lparr>editingExpense := Some (fold apply_edit eds c)\<rparr>"
proof (induction eds arbitrary: st c)
  case Nil
  then show ?case by (simp add: run_Nil)
next
  case (Cons ed eds)
  let ?st1 = "st\<lparr>editingExpense := Some (apply_edit ed c)\<rparr>"
  have s: "handleEdit st ed = ?st1"
    using Cons.prems by (rule handleEdit_reviewing)
  have m: "showEditModal ?st1" using Cons.prems by simp
  have e: "editingExpense ?st1 = Some (apply_edit ed c)" by simp
  have "run st (map Edit (ed # eds)) = run ?st1 (map Edit eds)"
    by (simp add: run_Cons s)
  also have "\<dots> = ?st1\<lparr>editingExpense := Some (fold apply_edit eds (apply_edit ed c))\<rparr>"
    by (rule Cons.IH [OF m e])
  finally show ?case by simp
qed

lemma save_failed_eq:
  "editingExpense st = Some c \<Longrightarrow>
   handleSaveExpense st (PostFailed detail)
     = st\<lparr>error := str_or detail ''Failed to save expense''\<rparr>"
  by (simp add: handleSaveExpense_def)

lemma save_ignores_error:
  "handleSaveExpense (st\<lparr>error := x\<rparr>) PostOk = (handleSaveExpense st PostOk)\<lparr>error := x\<rparr>"
  by (simp add: handleSaveExpense_def Let_def split: option.splits)

text \<open>
  Pressing \<^verbatim>\<open>Add Selected\<close> with at least one ticked candidate on screen opens the review
  at index 0 over those candidates.
\<close>

lemma handleAddToExpenses_reviewing:
  assumes "filter (\<lambda>e. c_id e \<in> selectedExpenses st) (filteredExpenses st) = c # cs"
  shows "reviewing (handleAddToExpenses st) 0 (Suc (length cs))
     \<and> editingExpense (handleAddToExpenses st) = Some c
     \<and> expensesToConfirm (handleAddToExpenses st) = c # cs"
proof -
  have "selectedExpenses st \<noteq> {}"
  proof
    assume "selectedExpenses st = {}"
    then have "filter (\<lambda>e. c_id e \<in> selectedExpenses st) (filteredExpenses st) = []"
      by simp
    with assms show False by simp
  qed
  then show ?thesis
    using assms by (simp add: handleAddToExpenses_def reviewing_def Let_def)
qed

text \<open>The filters only remove candidates from the list on screen.\<close>

lemma applyFilters_subset:
  "set (filteredExpenses (applyFilters L D st)) \<subseteq> set (importedExpenses st)"
  by (auto simp: applyFilters_def Let_def)

text \<open>
  What the save stores as amount, case by case: the share when it is present and not 0,
  else the raw amount.
\<close>

lemma saved_amount_cases:
  "d_amount (expenseData_of gs e) =
     (case c_owed_share e of
        None \<Rightarrow> c_amount e
      | Some v \<Rightarrow> if v \<noteq> 0 then v else c_amount e)"
  by (simp add: expenseData_of_def num_or_def split: option.splits)

subsection \<open>The sample page\<close>

lemmas sample_defs = sample_review_def sample_fetched_def handleAddToExpenses_def
  applyFilters_def handleImportExpenses_def initial_page_def sample_candidate_def Let_def

lemma sample_review_reviewing: "reviewing sample_review 0 2"
  by (simp add: reviewing_def sample_defs)

lemma sample_review_editing:
  "editingExpense sample_review = Some (sample_candidate ''sw-2'' 42 (Some 42) False)"
  by (simp add: sample_defs)

lemma sample_review_confirm:
  "expensesToConfirm sample_review =
     [sample_candidate ''sw-2'' 42 (Some 42) False, sample_candidate ''sw-3'' 10 (Some 10) False]"
  by (simp add: sample_defs)

lemma sample_review_env:
  "store sample_review = []" "groups sample_review = []" "refreshes sample_review = 0"
  "onExpenseAdded sample_review" "showEditModal sample_review"
  "editingExpenseIndex sample_review = 0"
  by (simp_all add: sample_defs)

lemma sample_saved_reviewing: "reviewing (handleSaveExpense sample_review PostOk) 1 2"
  by (simp add: reviewing_def handleSaveExpense_def sample_review_editing sample_review_confirm
      sample_review_env Let_def)

lemma sample_saved_store:
  "store (handleSaveExpense sample_review PostOk)
     = [expenseData_of [] (sample_candidate ''sw-2'' 42 (Some 42) False)]"
  by (simp add: handleSaveExpense_def sample_review_editing sample_review_confirm
      sample_review_env Let_def)

section \<open>The balance figures\<close>



text \<open>
  Claim C8: the net balance is the income total minus the owed total, for all lists, and
  on empty lists all three figures are 0.
\<close>

theorem netBalance_exact:
  "netBalance expenses income = totalIncome income - youOwe expenses
   \<and> totalIncome [] = 0 \<and> youOwe [] = 0 \<and> netBalance [] [] = 0"
  by (simp add: netBalance_def totalIncome_def youOwe_def)

section \<open>Save and skip\<close>



text \<open>
  Claim C3: when the server rejects the save at index \<open>i\<close>, the handler only sets the
  error (the detail of the rejection, or \<^verbatim>\<open>Failed to save expense\<close>): the review stays at
  index \<open>i\<close> over the same candidates with the same edits, the persisted expenses are
  as before, and a retry that the server accepts does what the save would have done
  at first, the error text apart.
\<close>

theorem save_failure_stays:
  assumes "reviewing st i n"
  shows "handleSaveExpense st (PostFailed detail)
           = st\<lparr>error := str_or detail ''Failed to save expense''\<rparr>
     \<and> reviewing (handleSaveExpense st (PostFailed detail)) i n
     \<and> store (handleSaveExpense st (PostFailed detail)) = store st
     \<and> expensesToConfirm (handleSaveExpense st (PostFailed detail)) = expensesToConfirm st
     \<and> editingExpense (handleSaveExpense st (PostFailed detail)) = editingExpense st
     \<and> handleSaveExpense (handleSaveExpense st (PostFailed detail)) PostOk
         = (handleSaveExpense st PostOk)\<lparr>error := str_or detail ''Failed to save expense''\<rparr>"
proof -
  from assms obtain c where c: "editingExpense st = Some c"
    by (auto simp: reviewing_def)
  have eq: "handleSaveExpense st (PostFailed detail)
      = st\<lparr>error := str_or detail ''Failed to save expense''\<rparr>"
    by (rule save_failed_eq [OF c])
  have r: "reviewing (st\<lparr>error := str_or detail ''Failed to save expense''\<rparr>) i n"
    using assms by (simp add: reviewing_def)
  show ?thesis
    unfolding eq using r by (simp add: save_ignores_error)
qed

theorem save_failure_stays_witness:
  "reviewing (handleSaveExpense sample_review PostOk) 1 2
   \<and> error (handleSaveExpense (handleSaveExpense sample_review PostOk) (PostFailed None))
       = ''Failed to save expense''
   \<and> reviewing (handleSaveExpense (handleSaveExpense sample_review PostOk) (PostFailed None)) 1 2
   \<and> store (handleSaveExpense (handleSaveExpense sample_review PostOk) (PostFailed None))
       = [expenseData_of [] (sample_candidate ''sw-2'' 42 (Some 42) False)]"
proof -
  note a = save_failure_stays [OF sample_saved_reviewing, of None]
  have e: "error (handleSaveExpense (handleSaveExpense sample_review PostOk) (PostFailed None))
       = ''Failed to save expense''"
    by (simp add: a [THEN conjunct1] str_or_def)
  have r: "reviewing (handleSaveExpense (handleSaveExpense sample_review PostOk) (PostFailed None)) 1 2"
    by (rule a [THEN conjunct2, THEN conjunct1])
  have s: "store (handleSaveExpense (handleSaveExpense sample_review PostOk) (PostFailed None))
       = [expenseData_of [] (sample_candidate ''sw-2'' 42 (Some 42) False)]"
    by (simp only: a [THEN conjunct2, THEN conjunct2, THEN conjunct1] sample_saved_store)
  from sample_saved_reviewing e r s show ?thesis by blast
qed

text \<open>
  Claim C5: no sequence of edits in the modal changes the candidate's \<^verbatim>\<open>id\<close> or
  \<^verbatim>\<open>splitwise_id\<close>, edits persist nothing, and the expense persisted by the save after
  them carries as \<^verbatim>\<open>splitwise_id\<close> the external id of the original candidate
  (\<^verbatim>\<open>splitwise_id || id\<close>).
\<close>

theorem external_id_unchanged:
  assumes "reviewing st i n" and "editingExpense st = Some c"
  shows "c_id (fold apply_edit eds c) = c_id c
     \<and> c_splitwise_id (fold apply_edit eds c) = c_splitwise_id c
     \<and> editingExpense (run st (map Edit eds)) = Some (fold apply_edit eds c)
     \<and> store (run st (map Edit eds)) = store st
     \<and> store (run st (map Edit eds @ [Save PostOk]))
         = store st @ [expenseData_of (groups st) (fold apply_edit eds c)]
     \<and> d_splitwise_id (expenseData_of (groups st) (fold apply_edit eds c))
         = str_or (c_splitwise_id c) (c_id c)"
proof -
  have m: "showEditModal st" using assms(1) by (simp add: reviewing_def)
  note r = run_edits [OF m assms(2), of eds]
  have "store (run st (map Edit eds @ [Save PostOk]))
      = store (handleSaveExpense (st\<lparr>editingExpense := Some (fold apply_edit eds c)\<rparr>) PostOk)"
    by (simp add: run_append r run_Cons run_Nil)
  also have "\<dots> = store st @ [expenseData_of (groups st) (fold apply_edit eds c)]"
    by (simp add: handleSaveExpense_def Let_def)
  finally have s: "store (run st (map Edit eds @ [Save PostOk]))
      = store st @ [expenseData_of (groups st) (fold apply_edit eds c)]" .
  have d: "d_splitwise_id (expenseData_of (groups st) (fold apply_edit eds c))
         = str_or (c_splitwise_id c) (c_id c)"
    by (simp add: expenseData_of_def fold_apply_edit_ids)
  show ?thesis using s d by (simp add: r fold_apply_edit_ids)
qed

theorem external_id_unchanged_witness:
  "reviewing sample_review 0 2
   \<and> map d_splitwise_id
       (store (run sample_review
          [Edit (SetDescription ''Lunch''), Edit (SetAmount (Some 15)), Edit (SetCurrency ''EUR''),
           Edit (SetDate ''2024-02-01''), Edit (SetCategory ''Food''), Edit (SetGroup ''g1''),
           Save PostOk])) = [''sw-2'']"
proof -
  note a = external_id_unchanged [OF sample_review_reviewing sample_review_editing,
      of "[SetDescription ''Lunch'', SetAmount (Some 15), SetCurrency ''EUR'',
           SetDate ''2024-02-01'', SetCategory ''Food'', SetGroup ''g1'']"]
  from a sample_review_reviewing sample_review_env show ?thesis
    by (simp add: sample_candidate_def str_or_def)
qed


text \<open>
  Claim C4: the saved amount is the candidate's \<^verbatim>\<open>owed_share\<close>, and the raw amount only when
  \<^verbatim>\<open>owed_share\<close> is absent, so a share of 0 is saved as 0. The component computes
  \<^verbatim>\<open>owed_share || amount || 0\<close>, and 0 is falsy: a candidate with amount 42 and a share of 0
  is saved with amount 42, and so is the candidate of amount 42 whose amount field the
  user has set to 0 in the modal before saving.
\<close>

theorem zero_share_saved_as_amount:
  "d_amount (expenseData_of [] (sample_candidate ''sw-2'' 42 (Some 0) False)) = 42
   \<and> map d_amount (store (run sample_review [Edit (SetAmount (Some 0)), Save PostOk])) = [42]"
  by (simp add: run_def handleEdit_def handleSaveExpense_def expenseData_of_def num_or_def
      sample_review_editing sample_review_confirm sample_review_env sample_candidate_def Let_def)

text \<open>
  Claim C6: a skip at index \<open>i\<close> of a review leaves the persisted expenses as they were,
  and moves the review as an accepted save does: to index \<open>i + 1\<close> on the next selected
  candidate when \<open>i + 1 < n\<close>, to the complete state when \<open>i + 1 = n\<close>, with the same
  index, candidate in the modal, candidates to confirm, modal flag, selection and imported
  list as after the save.
\<close>

theorem skip_persists_nothing:
  assumes "reviewing st i n"
  shows "store (handleSkipExpense st) = store st
     \<and> (i + 1 < n \<longrightarrow> reviewing (handleSkipExpense st) (i + 1) n
            \<and> editingExpense (handleSkipExpense st) = Some (expensesToConfirm st ! (i + 1))
            \<and> expensesToConfirm (handleSkipExpense st) = expensesToConfirm st)
     \<and> (i + 1 = n \<longrightarrow> complete (handleSkipExpense st))
     \<and> editingExpenseIndex (handleSkipExpense st) = editingExpenseIndex (handleSaveExpense st PostOk)
     \<and> editingExpense (handleSkipExpense st) = editingExpense (handleSaveExpense st PostOk)
     \<and> expensesToConfirm (handleSkipExpense st) = expensesToConfirm (handleSaveExpense st PostOk)
     \<and> showEditModal (handleSkipExpense st) = showEditModal (handleSaveExpense st PostOk)
     \<and> selectedExpenses (handleSkipExpense st) = selectedExpenses (handleSaveExpense st PostOk)
     \<and> importedExpenses (handleSkipExpense st) = importedExpenses (handleSaveExpense st PostOk)"
  using assms
  by (auto simp: reviewing_def complete_def handleSkipExpense_def handleSaveExpense_def Let_def)

theorem skip_persists_nothing_witness:
  "reviewing sample_review 0 2
   \<and> store (handleSkipExpense sample_review) = []
   \<and> reviewing (handleSkipExpense sample_review) 1 2
   \<and> store (handleSkipExpense (handleSkipExpense sample_review)) = []
   \<and> complete (handleSkipExpense (handleSkipExpense sample_review))"
proof -
  note a = skip_persists_nothing [OF sample_review_reviewing]
  from a have r1: "reviewing (handleSkipExpense sample_review) 1 2" by simp
  note b = skip_persists_nothing [OF r1]
  from a b sample_review_reviewing sample_review_env show ?thesis by simp
qed

text \<open>
  Claim C7: a review that reaches the complete state calls \<^verbatim>\<open>onExpenseAdded\<close> once, whether
  its last candidate was saved or skipped. The branch of \<^verbatim>\<open>handleSaveExpense\<close> that ends the
  review calls it; the branch of \<^verbatim>\<open>handleSkipExpense\<close> that ends the review does not. On
  the sample review of two candidates, saving the first and skipping the second ends the
  review with one expense persisted and no call, while skipping the first and saving the
  second ends it with one call.
\<close>

theorem skip_last_no_refresh:
  "complete (run sample_review [Save PostOk, Skip])
   \<and> length (store (run sample_review [Save PostOk, Skip])) = 1
   \<and> refreshes (run sample_review [Save PostOk, Skip]) = 0
   \<and> complete (run sample_review [Skip, Save PostOk])
   \<and> refreshes (run sample_review [Skip, Save PostOk]) = 1"
  by (simp add: run_def complete_def handleSaveExpense_def handleSkipExpense_def
      sample_review_editing sample_review_confirm sample_review_env Let_def)

section \<open>The candidates on screen after a fetch\<close>

text \<open>
  Claim C10: after a fetch that the server answered, every candidate on screen (where the
  user ticks candidates) is a record of the response whose \<^verbatim>\<open>already_imported\<close> is false,
  whatever the page was before and whatever filters are set.
\<close>

theorem fetched_candidates_not_imported:
  "\<forall>c \<in> set (filteredExpenses (applyFilters L D (handleImportExpenses st (ImportOk expenses msg)))).
     \<not> c_already_imported c \<and> (\<exists>es. expenses = Some es \<and> c \<in> set es)"
proof
  fix c
  assume "c \<in> set (filteredExpenses (applyFilters L D (handleImportExpenses st (ImportOk expenses msg))))"
  then have "c \<in> set (importedExpenses (handleImportExpenses st (ImportOk expenses msg)))"
    using applyFilters_subset by blast
  then show "\<not> c_already_imported c \<and> (\<exists>es. expenses = Some es \<and> c \<in> set es)"
    by (cases expenses) (auto simp: handleImportExpenses_def Let_def)
qed

theorem fetched_candidates_not_imported_witness:
  "filteredExpenses sample_fetched
     = [sample_candidate ''sw-2'' 42 (Some 42) False, sample_candidate ''sw-3'' 10 (Some 10) False]
   \<and> \<not> c_already_imported (sample_candidate ''sw-2'' 42 (Some 42) False)
   \<and> \<not> c_already_imported (sample_candidate ''sw-3'' 10 (Some 10) False)"
proof -
  have f: "filteredExpenses sample_fetched
     = [sample_candidate ''sw-2'' 42 (Some 42) False, sample_candidate ''sw-3'' 10 (Some 10) False]"
    by (simp add: sample_defs)
  have a: "\<forall>c \<in> set (filteredExpenses sample_fetched).
      \<not> c_already_imported c
      \<and> (\<exists>es. Some [sample_candidate ''sw-1'' 7 (Some 7) True,
                      sample_candidate ''sw-2'' 42 (Some 42) False,
                      sample_candidate ''sw-3'' 10 (Some 10) False] = Some es \<and> c \<in> set es)"
    unfolding sample_fetched_def by (rule fetched_candidates_not_imported)
  have "\<not> c_already_imported (sample_candidate ''sw-2'' 42 (Some 42) False)"
    using a f by simp
  moreover have "\<not> c_already_imported (sample_candidate ''sw-3'' 10 (Some 10) False)"
    using a f by simp
  ultimately show ?thesis using f by blast
qed

end
